theory Spec2Isabelle
  imports Main "HOL-Library.Word"
begin

text \<open>
  A model of the Git-CD extension for Visual Studio Code: the function
  \<^verbatim>\<open>runGitCdCommand\<close>, which checks its preconditions, spawns \<^verbatim>\<open>git-cd\<close> and bridges
  the child's interactive prompts to the editor, together with \<^verbatim>\<open>stripAnsiCodes\<close>. The
  model follows the variant of the extension source that handles prompts
  (\<^verbatim>\<open>src/unnamed/part_000\<close>); \<^verbatim>\<open>src/src/extension.ts\<close> is the variant without prompt
  handling, with the same checks before the spawn and the same \<^verbatim>\<open>error\<close> and
  \<^verbatim>\<open>close\<close> handlers.
\<close>

section \<open>Text: JavaScript strings as sequences of UTF-16 code units\<close>

text \<open>
  The extension works on JavaScript strings. A string is modelled as the list of its UTF-16
  code units, which is what \<^verbatim>\<open>split\<close>, \<^verbatim>\<open>trim\<close>, \<^verbatim>\<open>includes\<close> and the
  regular expressions of the source (none of them carries the \<^verbatim>\<open>u\<close> flag) operate on.
  \<open>js\<close> turns an ASCII literal into such a string.
\<close>

type_synonym cu = "16 word"
type_synonym jstring = "cu list"

definition js :: "string \<Rightarrow> jstring" where
  "js s = map of_char s"

text \<open>
  White space as ECMAScript defines it for \<^verbatim>\<open>\s\<close>, \<^verbatim>\<open>trim\<close> and \<^verbatim>\<open>trimEnd\<close>
  (WhiteSpace and LineTerminator): TAB, LF, VT, FF, CR, SP, NBSP, U+1680, U+2000 to U+200A,
  U+2028, U+2029, U+202F, U+205F, U+3000 and U+FEFF.
\<close>

definition isSpace :: "cu \<Rightarrow> bool" where
  "isSpace c = (c \<in> set [0x09, 0x0A, 0x0B, 0x0C, 0x0D, 0x20, 0xA0, 0x1680,
     0x2000, 0x2001, 0x2002, 0x2003, 0x2004, 0x2005, 0x2006, 0x2007, 0x2008, 0x2009, 0x200A,
     0x2028, 0x2029, 0x202F, 0x205F, 0x3000, 0xFEFF])"

text \<open>Line terminators: what \<^verbatim>\<open>.\<close> refuses and where \<^verbatim>\<open>$\<close> matches under the \<^verbatim>\<open>m\<close> flag.\<close>

definition isLineTerminator :: "cu \<Rightarrow> bool" where
  "isLineTerminator c = (c \<in> set [0x0A, 0x0D, 0x2028, 0x2029])"

definition isDot :: "cu \<Rightarrow> bool" where
  "isDot c = (\<not> isLineTerminator c)"

text \<open>The character class \<^verbatim>\<open>[0-9;]\<close>.\<close>

definition isParam :: "cu \<Rightarrow> bool" where
  "isParam c = (c \<in> set [0x30, 0x31, 0x32, 0x33, 0x34, 0x35, 0x36, 0x37, 0x38, 0x39, 0x3B])"

text \<open>
  Case-insensitive comparison (flag \<^verbatim>\<open>i\<close>, no flag \<^verbatim>\<open>u\<close>) of a pattern character with
  an input code unit. Every pattern character of the source is ASCII. ECMAScript's
  Canonicalize upper-cases a code unit but never maps a unit of 128 or more to one below 128,
  so against an ASCII pattern character only ASCII input can match, and there upper-casing
  is \<open>a\<close>..\<open>z\<close> to \<open>A\<close>..\<open>Z\<close>.
\<close>

definition canonicalize :: "cu \<Rightarrow> cu" where
  "canonicalize c = (if 0x61 \<le> c \<and> c \<le> 0x7A then c - 0x20 else c)"

definition ciEq :: "cu \<Rightarrow> cu \<Rightarrow> bool" where
  "ciEq p c = (canonicalize p = canonicalize c)"

definition csEq :: "cu \<Rightarrow> cu \<Rightarrow> bool" where
  "csEq p c = (p = c)"

text \<open>\<^verbatim>\<open>trimEnd\<close>, \<^verbatim>\<open>trimStart\<close>, \<^verbatim>\<open>trim\<close>.\<close>

definition trimEnd :: "jstring \<Rightarrow> jstring" where
  "trimEnd t = rev (dropWhile isSpace (rev t))"

definition trimStart :: "jstring \<Rightarrow> jstring" where
  "trimStart t = dropWhile isSpace t"

definition trim :: "jstring \<Rightarrow> jstring" where
  "trim t = trimStart (trimEnd t)"

text \<open>
  \<^verbatim>\<open>split('\n')\<close>: \<open>splitFrom cur t\<close> is the list of lines of \<open>t\<close>, the first one
  prefixed by the characters \<open>cur\<close> already read. The empty string has one (empty) line.
\<close>

fun splitFrom :: "jstring \<Rightarrow> jstring \<Rightarrow> jstring list" where
  "splitFrom cur [] = [cur]"
| "splitFrom cur (c # cs) =
     (if c = 0x0A then cur # splitFrom [] cs else splitFrom (cur @ [c]) cs)"

definition splitNl :: "jstring \<Rightarrow> jstring list" where
  "splitNl t = splitFrom [] t"

text \<open>\<^verbatim>\<open>join('\n')\<close>.\<close>

fun joinNl :: "jstring list \<Rightarrow> jstring" where
  "joinNl [] = []"
| "joinNl [l] = l"
| "joinNl (l # ls) = l @ 0x0A # joinNl ls"

section \<open>Regular expressions as backtracking matchers\<close>

text \<open>
  A matcher takes the input that remains at the current position and a continuation for
  what follows in the pattern; it returns the continuation's result, or \<open>None\<close> when every
  alternative has failed. Greedy quantifiers try the longest repetition first and fall back
  one character at a time, lazy ones the shortest first, as a backtracking engine does.
\<close>

definition one :: "(cu \<Rightarrow> bool) \<Rightarrow> (jstring \<Rightarrow> 'a option) \<Rightarrow> jstring \<Rightarrow> 'a option" where
  "one p k t = (case t of [] \<Rightarrow> None | c # r \<Rightarrow> if p c then k r else None)"

fun lit :: "(cu \<Rightarrow> cu \<Rightarrow> bool) \<Rightarrow> jstring \<Rightarrow> (jstring \<Rightarrow> 'a option) \<Rightarrow> jstring \<Rightarrow> 'a option" where
  "lit eq [] k t = k t"
| "lit eq (p # ps) k t = one (eq p) (lit eq ps k) t"

fun star :: "(cu \<Rightarrow> bool) \<Rightarrow> (jstring \<Rightarrow> 'a option) \<Rightarrow> jstring \<Rightarrow> 'a option" where
  "star p k [] = k []"
| "star p k (c # r) =
     (if p c then (case star p k r of Some x \<Rightarrow> Some x | None \<Rightarrow> k (c # r))
      else k (c # r))"

definition plus :: "(cu \<Rightarrow> bool) \<Rightarrow> (jstring \<Rightarrow> 'a option) \<Rightarrow> jstring \<Rightarrow> 'a option" where
  "plus p k t = one p (star p k) t"

definition opt :: "(cu \<Rightarrow> bool) \<Rightarrow> (jstring \<Rightarrow> 'a option) \<Rightarrow> jstring \<Rightarrow> 'a option" where
  "opt p k t = (case one p k t of Some x \<Rightarrow> Some x | None \<Rightarrow> k t)"

text \<open>
  The capturing lazy group \<^verbatim>\<open>(.+?)\<close>: \<open>acc\<close> is what the group has consumed so far; the
  continuation receives the capture and the remaining input.
\<close>

fun plusLazy :: "(cu \<Rightarrow> bool) \<Rightarrow> (jstring \<Rightarrow> jstring \<Rightarrow> 'a option) \<Rightarrow> jstring \<Rightarrow> jstring \<Rightarrow> 'a option" where
  "plusLazy p k acc [] = None"
| "plusLazy p k acc (c # r) =
     (if p c then (case k (acc @ [c]) r of Some x \<Rightarrow> Some x | None \<Rightarrow> plusLazy p k (acc @ [c]) r)
      else None)"

text \<open>\<^verbatim>\<open>$\<close> without the \<^verbatim>\<open>m\<close> flag: only at the end of the input.\<close>

definition eoi :: "(jstring \<Rightarrow> 'a option) \<Rightarrow> jstring \<Rightarrow> 'a option" where
  "eoi k t = (case t of [] \<Rightarrow> k [] | c # r \<Rightarrow> None)"

text \<open>\<^verbatim>\<open>$\<close> with the \<^verbatim>\<open>m\<close> flag: at the end of the input or before a line terminator.\<close>

definition eol :: "(jstring \<Rightarrow> 'a option) \<Rightarrow> jstring \<Rightarrow> 'a option" where
  "eol k t = (case t of [] \<Rightarrow> k [] | c # r \<Rightarrow> if isLineTerminator c then k (c # r) else None)"

text \<open>The end of a pattern: the match succeeds and leaves the rest of the input.\<close>

definition accept :: "jstring \<Rightarrow> jstring option" where
  "accept t = Some t"

text \<open>
  \<open>exec\<close> looks for the leftmost position where the matcher succeeds (a regular expression
  without the \<^verbatim>\<open>g\<close> and \<^verbatim>\<open>y\<close> flags); \<open>test\<close> is \<^verbatim>\<open>RegExp.prototype.test\<close>.
\<close>

fun exec :: "(jstring \<Rightarrow> 'a option) \<Rightarrow> jstring \<Rightarrow> 'a option" where
  "exec m [] = m []"
| "exec m (c # cs) = (case m (c # cs) of Some x \<Rightarrow> Some x | None \<Rightarrow> exec m cs)"

definition test :: "(jstring \<Rightarrow> 'a option) \<Rightarrow> jstring \<Rightarrow> bool" where
  "test m t = (exec m t \<noteq> None)"

text \<open>
  \<^verbatim>\<open>text.replace(re, '')\<close> for a pattern without the \<^verbatim>\<open>g\<close> flag: the leftmost match is
  removed. The matcher returns the input that follows the match.
\<close>

fun replaceFirst :: "(jstring \<Rightarrow> jstring option) \<Rightarrow> jstring \<Rightarrow> jstring" where
  "replaceFirst m [] = (case m [] of Some r \<Rightarrow> r | None \<Rightarrow> [])"
| "replaceFirst m (c # cs) = (case m (c # cs) of Some r \<Rightarrow> r | None \<Rightarrow> c # replaceFirst m cs)"

section \<open>stripAnsiCodes\<close>

text \<open>The pattern \<^verbatim>\<open>/\x1b\[[0-9;]*m/\<close>.\<close>

definition ansiCode :: "jstring \<Rightarrow> jstring option" where
  "ansiCode = lit csEq [0x1B, 0x5B] (star isParam (one (\<lambda>c. c = 0x6D) accept))"

lemma star_length:
  assumes "\<And>u r. k u = Some r \<Longrightarrow> length r \<le> length u"
  shows "star p k t = Some r \<Longrightarrow> length r \<le> length t"
proof (induction t)
  case Nil
  then show ?case using assms by fastforce
next
  case (Cons c t)
  show ?case
  proof (cases "p c \<and> star p k t \<noteq> None")
    case True
    then have "star p k t = Some r" using Cons.prems by auto
    then show ?thesis using Cons.IH by simp
  next
    case False
    then have "k (c # t) = Some r" using Cons.prems by (auto split: if_splits option.splits)
    then show ?thesis using assms by blast
  qed
qed

lemma ansiCode_length:
  assumes "ansiCode t = Some r"
  shows "length r < length t"
proof -
  obtain e b u where t: "t = e # b # u" and s: "star isParam (one (\<lambda>c. c = 0x6D) accept) u = Some r"
    using assms
    by (cases t; cases "tl t") (auto simp: ansiCode_def one_def csEq_def split: if_splits)
  have "length r \<le> length u"
    by (rule star_length [OF _ s]) (auto simp: one_def accept_def split: list.splits if_splits)
  then show ?thesis using t by simp
qed

lemma ansiCode_shorter [termination_simp]:
  "ansiCode (c # cs) = Some r \<Longrightarrow> length r < Suc (length cs)"
  using ansiCode_length [of "c # cs" r] by simp

text \<open>
  \<^verbatim>\<open>text.replace(/\x1b\[[0-9;]*m/g, '')\<close>: one pass from left to right; after a match the
  search resumes behind it, so text that only becomes a colour sequence once an inner one is
  removed stays.
\<close>

fun stripAnsiCodes :: "jstring \<Rightarrow> jstring" where
  "stripAnsiCodes [] = []"
| "stripAnsiCodes (c # cs) =
     (case ansiCode (c # cs) of Some r \<Rightarrow> stripAnsiCodes r | None \<Rightarrow> c # stripAnsiCodes cs)"

text \<open>
  What both the stdout and the stderr handler append to the output channel:
  \<^verbatim>\<open>cleanOutput.split('\n').map(line => line.trimEnd()).join('\n')\<close>.
\<close>

definition trimLines :: "jstring \<Rightarrow> jstring" where
  "trimLines t = joinNl (map trimEnd (splitNl t))"

definition cleanedLines :: "jstring \<Rightarrow> jstring" where
  "cleanedLines output = trimLines (stripAnsiCodes output)"

section \<open>Prompt detection\<close>

text \<open>
  The two pattern lists of the stdout handler:
  \<^verbatim>\<open>/\[y\/n\]/i\<close>, \<^verbatim>\<open>/\(yes\/no\)/i\<close> and
  \<^verbatim>\<open>/\?\s*$/\<close>, \<^verbatim>\<open>/Default:\s*.+$/m\<close>, \<^verbatim>\<open>/continue\?/i\<close>, \<^verbatim>\<open>/proceed\?/i\<close>,
  \<^verbatim>\<open>/do you want/i\<close>.
\<close>

definition yesNoPatterns :: "(jstring \<Rightarrow> jstring option) list" where
  "yesNoPatterns =
     [lit ciEq (js ''[y/n]'') accept,
      lit ciEq (js ''(yes/no)'') accept]"

definition textInputPatterns :: "(jstring \<Rightarrow> jstring option) list" where
  "textInputPatterns =
     [lit csEq (js ''?'') (star isSpace (eoi accept)),
      lit csEq (js ''Default:'') (star isSpace (plus isDot (eol accept))),
      lit ciEq (js ''continue?'') accept,
      lit ciEq (js ''proceed?'') accept,
      lit ciEq (js ''do you want'') accept]"

text \<open>\<^verbatim>\<open>patterns.some(pattern => pattern.test(cleanOutput))\<close>.\<close>

definition hasYesNoQuestion :: "jstring \<Rightarrow> bool" where
  "hasYesNoQuestion cleanOutput = list_ex (\<lambda>pattern. test pattern cleanOutput) yesNoPatterns"

definition hasTextInputQuestion :: "jstring \<Rightarrow> bool" where
  "hasTextInputQuestion cleanOutput = list_ex (\<lambda>pattern. test pattern cleanOutput) textInputPatterns"

text \<open>
  The loop that looks, from the last line backwards, for a line whose trimmed text contains
  \<open>?\<close>; its argument is the list of lines in reverse order. The result is empty when no
  line has one.
\<close>

fun questionLoop :: "jstring list \<Rightarrow> jstring" where
  "questionLoop [] = []"
| "questionLoop (l # ls) = (if 0x3F \<in> set (trim l) then trim l else questionLoop ls)"

text \<open>
  \<open>questionText\<close> before the yes/no marker is removed. The fallback
  \<^verbatim>\<open>lines.filter(l => l.trim()).pop() || cleanOutput.trim()\<close> takes the last line that is
  not blank (untrimmed), or the trimmed chunk.
\<close>

definition extractQuestion :: "jstring \<Rightarrow> jstring \<Rightarrow> jstring" where
  "extractQuestion cleanPendingOutput cleanOutput =
     (let lines = splitNl (trim cleanPendingOutput);
          questionText = questionLoop (rev lines)
      in if questionText = [] then
           (case rev (filter (\<lambda>l. trim l \<noteq> []) lines) of
              l # ls \<Rightarrow> l
            | [] \<Rightarrow> trim cleanOutput)
         else questionText)"

text \<open>
  \<^verbatim>\<open>cleanPendingOutput.match(/Default:\s*(.+?)$/m)\<close>; the matcher returns the capture
  group, and \<open>defaultValue\<close> is its trimmed text, or empty without a match.
\<close>

definition defaultPattern :: "jstring \<Rightarrow> jstring option" where
  "defaultPattern =
     lit csEq (js ''Default:'') (star isSpace (plusLazy isDot (\<lambda>cap. eol (\<lambda>r. Some cap)) []))"

definition extractDefault :: "jstring \<Rightarrow> jstring" where
  "extractDefault cleanPendingOutput =
     (case exec defaultPattern cleanPendingOutput of Some cap \<Rightarrow> trim cap | None \<Rightarrow> [])"

text \<open>
  The two replacements \<^verbatim>\<open>/\s*\[y\/n\]\s*:?\s*$/i\<close> and \<^verbatim>\<open>/\s*\(yes\/no\)\s*:?\s*$/i\<close>
  applied to the question of a yes/no prompt.
\<close>

definition trailingMarker :: "jstring \<Rightarrow> jstring \<Rightarrow> jstring option" where
  "trailingMarker marker =
     star isSpace (lit ciEq marker (star isSpace (opt (\<lambda>c. c = 0x3A) (star isSpace (eoi accept)))))"

definition cleanYesNoQuestion :: "jstring \<Rightarrow> jstring" where
  "cleanYesNoQuestion questionText =
     replaceFirst (trailingMarker (js ''(yes/no)''))
       (replaceFirst (trailingMarker (js ''[y/n]'')) questionText)"

section \<open>The session: effects, state and event handlers\<close>

text \<open>
  Everything \<^verbatim>\<open>runGitCdCommand\<close> does to the outside is recorded, in order, as a list
  of effects. Messages whose text contains a formatted number or \<^verbatim>\<open>args[0]\<close> keep those
  values as arguments instead of formatting them.
\<close>

datatype pick = Yes | No

datatype message =
    Literal jstring
  | CompletedSuccessfully "jstring option"
  | FailedWithCode "jstring option" "int option"
  | ExitedWithCode "int option"

datatype effect =
    Show
  | Append jstring
  | AppendLine message
  | ShowErrorMessage message
  | ShowInformationMessage message
  | ShowQuickPick jstring
  | ShowInputBox jstring jstring jstring
  | Spawn jstring "jstring list" jstring
  | StdinWrite jstring
  | Kill

datatype rejection = SpawnError jstring | ExitError "int option"

datatype promise = Pending | Fulfilled | Rejected rejection

record session =
  stdout :: jstring
  stderr :: jstring
  pendingOutput :: jstring
  effects :: "effect list"
  result :: promise

text \<open>
  One \<^verbatim>\<open>data\<close> event of the child's stdout, with what the environment answers while the
  handler runs: whether \<^verbatim>\<open>child.stdin.writable\<close> holds, what \<^verbatim>\<open>showQuickPick\<close> resolves
  to (\<open>None\<close> for \<^verbatim>\<open>undefined\<close>, the dialog dismissed) and what \<^verbatim>\<open>showInputBox\<close>
  resolves to. A handler is taken to run to its end before the next event is handled.
\<close>

record stdoutData =
  chunk :: jstring
  writable :: bool
  picked :: "pick option"
  entered :: "jstring option"

fun label :: "pick \<Rightarrow> jstring" where
  "label Yes = js ''Yes''"
| "label No = js ''No''"

fun toLowerCase :: "pick \<Rightarrow> jstring" where
  "toLowerCase Yes = js ''yes''"
| "toLowerCase No = js ''no''"

text \<open>The yes/no branch of the handler, from \<^verbatim>\<open>showQuickPick\<close> on.\<close>

definition askYesNo :: "jstring \<Rightarrow> pick option \<Rightarrow> effect list" where
  "askYesNo questionText answer =
     ShowQuickPick (cleanYesNoQuestion questionText) #
     (case answer of
        Some a \<Rightarrow>
          [StdinWrite (toLowerCase a @ js ''\<newline>''),
           AppendLine (Literal (js ''[User selected: '' @ label a @ js '']''))]
      | None \<Rightarrow> [StdinWrite (js ''no\<newline>''), Kill])"

text \<open>The text branch, from \<^verbatim>\<open>showInputBox\<close> on.\<close>

definition askText :: "jstring \<Rightarrow> jstring \<Rightarrow> jstring option \<Rightarrow> effect list" where
  "askText questionText defaultValue answer =
     ShowInputBox questionText defaultValue
       (if defaultValue \<noteq> [] then js ''Default: '' @ defaultValue else js ''Enter value'') #
     (case answer of
        Some a \<Rightarrow>
          [StdinWrite (a @ js ''\<newline>''),
           AppendLine (Literal (js ''[User entered: '' @
             (if a \<noteq> [] then a else js ''(empty - using default)'') @ js '']''))]
      | None \<Rightarrow> [Kill])"

text \<open>\<^verbatim>\<open>child.stdout.on('data', ...)\<close>.\<close>

definition onStdoutData :: "stdoutData \<Rightarrow> session \<Rightarrow> session" where
  "onStdoutData ev s =
     (let output = chunk ev;
          cleanOutput = stripAnsiCodes output;
          s1 = s\<lparr>stdout := stdout s @ output,
                 effects := effects s @ [Append (trimLines cleanOutput)],
                 pendingOutput := pendingOutput s @ output\<rparr>
      in if (hasYesNoQuestion cleanOutput \<or> hasTextInputQuestion cleanOutput) \<and> writable ev then
           (let cleanPendingOutput = stripAnsiCodes (pendingOutput s1);
                questionText = extractQuestion cleanPendingOutput cleanOutput;
                defaultValue = extractDefault cleanPendingOutput
            in s1\<lparr>effects := effects s1 @
                       (if hasYesNoQuestion cleanOutput then askYesNo questionText (picked ev)
                        else askText questionText defaultValue (entered ev)),
                    pendingOutput := []\<rparr>)
         else s1)"

text \<open>\<^verbatim>\<open>child.stderr.on('data', ...)\<close>.\<close>

definition onStderrData :: "jstring \<Rightarrow> session \<Rightarrow> session" where
  "onStderrData output s =
     s\<lparr>stderr := stderr s @ output,
       effects := effects s @ [Append (trimLines (stripAnsiCodes output))]\<rparr>"

text \<open>
  \<^verbatim>\<open>resolve\<close> and \<^verbatim>\<open>reject\<close> settle the promise only while it is pending; later calls
  have no effect.
\<close>

fun settle :: "promise \<Rightarrow> promise \<Rightarrow> promise" where
  "settle Pending outcome = outcome"
| "settle settled outcome = settled"

text \<open>\<^verbatim>\<open>args[0]\<close>, which is \<^verbatim>\<open>undefined\<close> for an empty argument list.\<close>

fun arg0 :: "jstring list \<Rightarrow> jstring option" where
  "arg0 [] = None"
| "arg0 (a # as) = Some a"

text \<open>\<^verbatim>\<open>child.on('error', ...)\<close>, with the error's message.\<close>

definition onError :: "jstring \<Rightarrow> session \<Rightarrow> session" where
  "onError errorMessage s =
     s\<lparr>effects := effects s @
         [AppendLine (Literal (js ''Error: '' @ errorMessage)),
          ShowErrorMessage (Literal (js ''Git-CD error: '' @ errorMessage))],
       result := settle (result s) (Rejected (SpawnError errorMessage))\<rparr>"

text \<open>
  \<^verbatim>\<open>child.on('close', ...)\<close>; the code is \<open>None\<close> for \<^verbatim>\<open>null\<close> (the child was ended by a
  signal).
\<close>

definition onClose :: "jstring list \<Rightarrow> int option \<Rightarrow> session \<Rightarrow> session" where
  "onClose args code s =
     (if code = Some 0 then
        s\<lparr>effects := effects s @
            [AppendLine (Literal []),
             ShowInformationMessage (CompletedSuccessfully (arg0 args))],
          result := settle (result s) Fulfilled\<rparr>
      else
        s\<lparr>effects := effects s @
            [AppendLine (Literal []),
             AppendLine (ExitedWithCode code),
             ShowErrorMessage (FailedWithCode (arg0 args) code)],
          result := settle (result s) (Rejected (ExitError code))\<rparr>)"

section \<open>runGitCdCommand up to the spawn\<close>

text \<open>
  What the function reads from its host: the first workspace folder's path
  (\<open>None\<close> when no folder is open), the setting \<^verbatim>\<open>showOutputOnExecution\<close>, the extension
  path, the two paths returned by \<^verbatim>\<open>getPythonAndGitcdPaths\<close>, \<^verbatim>\<open>fs.existsSync\<close> and the
  result of \<^verbatim>\<open>findSshAuthSocket\<close>. The environment handed to \<^verbatim>\<open>spawn\<close> is left out of
  the \<open>Spawn\<close> effect, and so is the \<^verbatim>\<open>Open Settings\<close> button of the error messages.
\<close>

record host =
  workspaceFolder :: "jstring option"
  showOutput :: bool
  extensionPath :: jstring
  pythonPath :: jstring
  gitcdPath :: jstring
  existsSync :: "jstring \<Rightarrow> bool"
  sshAuthSock :: "jstring option"

fun showBool :: "bool \<Rightarrow> jstring" where
  "showBool True = js ''true''"
| "showBool False = js ''false''"

text \<open>\<^verbatim>\<open>args.join(' ')\<close>.\<close>

fun joinSp :: "jstring list \<Rightarrow> jstring" where
  "joinSp [] = []"
| "joinSp [a] = a"
| "joinSp (a # as) = a @ 0x20 # joinSp as"

definition noWorkspaceMessage :: message where
  "noWorkspaceMessage = Literal (js ''No workspace folder open'')"

definition pythonNotFoundMessage :: "jstring \<Rightarrow> message" where
  "pythonNotFoundMessage path =
     Literal (js ''Python not found at: '' @ path @ js ''. Please check settings.'')"

definition gitcdNotFoundMessage :: "jstring \<Rightarrow> message" where
  "gitcdNotFoundMessage path =
     Literal (js ''Git-CD not found at: '' @ path @
              js ''. Please check settings or reinstall extension.'')"

definition checkingPaths :: "host \<Rightarrow> effect list" where
  "checkingPaths h =
     (if showOutput h then [Show] else []) @
     [AppendLine (Literal (js ''Checking paths...'')),
      AppendLine (Literal (js ''Extension path: '' @ extensionPath h)),
      AppendLine (Literal (js ''Python: '' @ pythonPath h @ js '' (exists: '' @
                           showBool (existsSync h (pythonPath h)) @ js '')'')),
      AppendLine (Literal (js ''Git-CD: '' @ gitcdPath h @ js '' (exists: '' @
                           showBool (existsSync h (gitcdPath h)) @ js '')''))]"

definition announce :: "host \<Rightarrow> jstring list \<Rightarrow> jstring \<Rightarrow> effect list" where
  "announce h args cwd =
     [AppendLine (Literal (js ''Running: git-cd '' @ joinSp args)),
      AppendLine (Literal (js ''Working directory: '' @ cwd)),
      AppendLine (Literal (js ''SSH_AUTH_SOCK: '' @
        (case sshAuthSock h of
           Some sock \<Rightarrow> if sock \<noteq> [] then sock else js ''(not found)''
         | None \<Rightarrow> js ''(not found)''))),
      AppendLine (Literal (js ''---''))]"

text \<open>
  An early \<^verbatim>\<open>return\<close> of the \<^verbatim>\<open>async\<close> function fulfils its promise; after the spawn
  the promise is pending until \<^verbatim>\<open>resolve\<close> or \<^verbatim>\<open>reject\<close> is called by a handler.
\<close>

definition returned :: "effect list \<Rightarrow> session" where
  "returned es = \<lparr>stdout = [], stderr = [], pendingOutput = [], effects = es, result = Fulfilled\<rparr>"

definition runGitCdCommand :: "host \<Rightarrow> jstring list \<Rightarrow> session" where
  "runGitCdCommand h args =
     (case workspaceFolder h of
        None \<Rightarrow> returned [ShowErrorMessage noWorkspaceMessage]
      | Some cwd \<Rightarrow>
          if \<not> existsSync h (pythonPath h) then
            returned (checkingPaths h @ [ShowErrorMessage (pythonNotFoundMessage (pythonPath h))])
          else if \<not> existsSync h (gitcdPath h) then
            returned (checkingPaths h @ [ShowErrorMessage (gitcdNotFoundMessage (gitcdPath h))])
          else
            \<lparr>stdout = [], stderr = [], pendingOutput = [],
             effects = checkingPaths h @ announce h args cwd @
                       [Spawn (pythonPath h) (gitcdPath h # args) cwd],
             result = Pending\<rparr>)"

text \<open>The events of a spawned child, and a run of the session over a list of them.\<close>

datatype event =
    StdoutData stdoutData
  | StderrData jstring
  | Error jstring
  | Close "int option"

fun handle :: "jstring list \<Rightarrow> event \<Rightarrow> session \<Rightarrow> session" where
  "handle args (StdoutData ev) s = onStdoutData ev s"
| "handle args (StderrData output) s = onStderrData output s"
| "handle args (Error errorMessage) s = onError errorMessage s"
| "handle args (Close code) s = onClose args code s"

fun run :: "jstring list \<Rightarrow> event list \<Rightarrow> session \<Rightarrow> session" where
  "run args [] s = s"
| "run args (e # es) s = run args es (handle args e s)"

section \<open>Observing a session\<close>

text \<open>
  The effects a handler has added to a session, and the kinds of effect the statements
  below distinguish. \<open>detected\<close> is the first conjunct of the handler's condition
  \<^verbatim>\<open>(hasYesNoQuestion || hasTextInputQuestion) && child.stdin.writable\<close>, computed from
  the raw chunk.
\<close>

definition emitted :: "session \<Rightarrow> session \<Rightarrow> effect list" where
  "emitted s s' = drop (length (effects s)) (effects s')"

fun isQuickPick :: "effect \<Rightarrow> bool" where
  "isQuickPick (ShowQuickPick q) = True"
| "isQuickPick e = False"

fun isInputBox :: "effect \<Rightarrow> bool" where
  "isInputBox (ShowInputBox q d p) = True"
| "isInputBox e = False"

fun isAnswer :: "effect \<Rightarrow> bool" where
  "isAnswer (StdinWrite t) = True"
| "isAnswer Kill = True"
| "isAnswer e = False"

fun isSpawn :: "effect \<Rightarrow> bool" where
  "isSpawn (Spawn c a d) = True"
| "isSpawn e = False"

fun isData :: "event \<Rightarrow> bool" where
  "isData (StdoutData ev) = True"
| "isData (StderrData output) = True"
| "isData e = False"

definition detected :: "jstring \<Rightarrow> bool" where
  "detected output =
     (hasYesNoQuestion (stripAnsiCodes output) \<or> hasTextInputQuestion (stripAnsiCodes output))"

section \<open>Properties of the sanitizer\<close>

lemma trimEnd_idem: "trimEnd (trimEnd t) = trimEnd t"
  by (simp add: trimEnd_def dropWhile_idem)

lemma trimEnd_length: "length (trimEnd t) \<le> length t"
  by (simp add: trimEnd_def length_dropWhile_le [of isSpace "rev t", simplified])

lemma trimEnd_set: "set (trimEnd t) \<subseteq> set t"
  unfolding trimEnd_def using set_dropWhileD [of _ isSpace "rev t"] by auto

lemma splitFrom_line:
  "0x0A \<notin> set l \<Longrightarrow> splitFrom cur (l @ 0x0A # rest) = (cur @ l) # splitFrom [] rest"
  by (induction l arbitrary: cur) auto

lemma splitFrom_last: "0x0A \<notin> set l \<Longrightarrow> splitFrom cur l = [cur @ l]"
  by (induction l arbitrary: cur) auto

lemma splitFrom_join:
  "ls \<noteq> [] \<Longrightarrow> \<forall>l \<in> set ls. 0x0A \<notin> set l \<Longrightarrow> splitFrom [] (joinNl ls) = ls"
proof (induction ls rule: joinNl.induct)
  case 1
  then show ?case by simp
next
  case (2 l)
  then show ?case by (simp add: splitFrom_last)
next
  case (3 l v va)
  then show ?case by (simp add: splitFrom_line)
qed

lemma splitFrom_nonempty: "splitFrom cur t \<noteq> []"
  by (induction t arbitrary: cur) auto

lemma splitFrom_no_nl:
  "0x0A \<notin> set cur \<Longrightarrow> \<forall>l \<in> set (splitFrom cur t). 0x0A \<notin> set l"
proof (induction t arbitrary: cur)
  case Nil
  then show ?case by simp
next
  case (Cons c t)
  show ?case
  proof (cases "c = 0x0A")
    case True
    then show ?thesis using Cons.prems Cons.IH [of "[]"] by simp
  next
    case False
    then show ?thesis using Cons.prems Cons.IH [of "cur @ [c]"] by simp
  qed
qed

lemma joinNl_splitFrom: "joinNl (splitFrom cur t) = cur @ t"
proof (induction t arbitrary: cur)
  case Nil
  then show ?case by simp
next
  case (Cons c t)
  show ?case
  proof (cases "c = 0x0A")
    case True
    obtain l ls where "splitFrom [] t = l # ls"
      using splitFrom_nonempty [of "[]" t] by (cases "splitFrom [] t") auto
    then show ?thesis using True Cons.IH [of "[]"] by simp
  next
    case False
    then show ?thesis using Cons.IH [of "cur @ [c]"] by simp
  qed
qed

lemma joinNl_length_mono:
  "length (joinNl (map trimEnd ls)) \<le> length (joinNl ls)"
proof (induction ls rule: joinNl.induct)
  case 1
  then show ?case by simp
next
  case (2 l)
  then show ?case by (simp add: trimEnd_length)
next
  case (3 l v va)
  then show ?case using trimEnd_length [of l] by simp
qed

lemma trimLines_length: "length (trimLines t) \<le> length t"
  using joinNl_length_mono [of "splitFrom [] t"]
  by (simp add: trimLines_def splitNl_def joinNl_splitFrom)

lemma trimLines_idem: "trimLines (trimLines t) = trimLines t"
proof -
  let ?ls = "map trimEnd (splitNl t)"
  have ne: "?ls \<noteq> []" by (simp add: splitNl_def splitFrom_nonempty)
  have nl: "\<forall>l \<in> set ?ls. 0x0A \<notin> set l"
    using splitFrom_no_nl [of "[]" t] trimEnd_set by (fastforce simp: splitNl_def)
  have "splitNl (joinNl ?ls) = ?ls"
    unfolding splitNl_def [of "joinNl ?ls"] by (rule splitFrom_join [OF ne nl])
  moreover have "map trimEnd ?ls = ?ls" by (simp add: trimEnd_idem)
  ultimately show ?thesis by (simp only: trimLines_def)
qed

lemma stripAnsiCodes_length: "length (stripAnsiCodes t) \<le> length t"
proof (induction t rule: stripAnsiCodes.induct)
  case 1
  then show ?case by simp
next
  case (2 c cs)
  show ?case
  proof (cases "ansiCode (c # cs)")
    case None
    then show ?thesis using 2 by simp
  next
    case (Some r)
    then show ?thesis using 2(2) [OF Some] ansiCode_length [OF Some] by simp
  qed
qed

lemma ansiCode_Nil: "ansiCode [] = None"
  by (simp add: ansiCode_def one_def)

lemma stripAnsiCodes_shorter: "test ansiCode t \<Longrightarrow> length (stripAnsiCodes t) < length t"
proof (induction t)
  case Nil
  then show ?case by (simp add: test_def ansiCode_Nil)
next
  case (Cons c cs)
  show ?case
  proof (cases "ansiCode (c # cs)")
    case None
    then have "test ansiCode cs" using Cons.prems by (simp add: test_def)
    then show ?thesis using None Cons.IH by simp
  next
    case (Some r)
    then show ?thesis
      using stripAnsiCodes_length [of r] ansiCode_length [OF Some] by simp
  qed
qed

lemma stripAnsiCodes_fixed: "\<not> test ansiCode t \<Longrightarrow> stripAnsiCodes t = t"
proof (induction t)
  case Nil
  then show ?case by simp
next
  case (Cons c cs)
  then show ?case by (cases "ansiCode (c # cs)") (simp_all add: test_def)
qed

section \<open>The three ways through the stdout handler\<close>

lemma onStdoutData_quiet:
  assumes "\<not> (detected (chunk ev) \<and> writable ev)"
  shows "onStdoutData ev s =
    s\<lparr>stdout := stdout s @ chunk ev,
      effects := effects s @ [Append (cleanedLines (chunk ev))],
      pendingOutput := pendingOutput s @ chunk ev\<rparr>"
  using assms by (auto simp: onStdoutData_def detected_def Let_def cleanedLines_def)

lemma onStdoutData_yesNo:
  assumes "hasYesNoQuestion (stripAnsiCodes (chunk ev))" and "writable ev"
  shows "onStdoutData ev s =
    s\<lparr>stdout := stdout s @ chunk ev,
      effects := effects s @ Append (cleanedLines (chunk ev)) #
        askYesNo (extractQuestion (stripAnsiCodes (pendingOutput s @ chunk ev))
                    (stripAnsiCodes (chunk ev))) (picked ev),
      pendingOutput := []\<rparr>"
  using assms by (simp add: onStdoutData_def Let_def cleanedLines_def)

lemma onStdoutData_text:
  assumes "\<not> hasYesNoQuestion (stripAnsiCodes (chunk ev))"
    and "hasTextInputQuestion (stripAnsiCodes (chunk ev))" and "writable ev"
  shows "onStdoutData ev s =
    s\<lparr>stdout := stdout s @ chunk ev,
      effects := effects s @ Append (cleanedLines (chunk ev)) #
        askText (extractQuestion (stripAnsiCodes (pendingOutput s @ chunk ev))
                   (stripAnsiCodes (chunk ev)))
                (extractDefault (stripAnsiCodes (pendingOutput s @ chunk ev))) (entered ev),
      pendingOutput := []\<rparr>"
  using assms by (simp add: onStdoutData_def Let_def cleanedLines_def)

lemma askYesNo_kinds:
  "list_ex isQuickPick (askYesNo q a)" "\<not> list_ex isInputBox (askYesNo q a)"
  "list_ex isAnswer (askYesNo q a)"
  by (auto simp: askYesNo_def split: option.splits)

lemma askText_kinds:
  "\<not> list_ex isQuickPick (askText q d a)" "list_ex isInputBox (askText q d a)"
  "list_ex isAnswer (askText q d a)"
  by (auto simp: askText_def split: option.splits)

lemma asked_iff:
  "list_ex isQuickPick (emitted s (onStdoutData ev s)) =
     (hasYesNoQuestion (stripAnsiCodes (chunk ev)) \<and> writable ev)"
  "list_ex isInputBox (emitted s (onStdoutData ev s)) =
     (\<not> hasYesNoQuestion (stripAnsiCodes (chunk ev)) \<and>
      hasTextInputQuestion (stripAnsiCodes (chunk ev)) \<and> writable ev)"
  "list_ex isAnswer (emitted s (onStdoutData ev s)) = (detected (chunk ev) \<and> writable ev)"
proof -
  let ?goal = "list_ex isQuickPick (emitted s (onStdoutData ev s)) =
       (hasYesNoQuestion (stripAnsiCodes (chunk ev)) \<and> writable ev) \<and>
     list_ex isInputBox (emitted s (onStdoutData ev s)) =
       (\<not> hasYesNoQuestion (stripAnsiCodes (chunk ev)) \<and>
        hasTextInputQuestion (stripAnsiCodes (chunk ev)) \<and> writable ev) \<and>
     list_ex isAnswer (emitted s (onStdoutData ev s)) = (detected (chunk ev) \<and> writable ev)"
  have ?goal
  proof (cases "detected (chunk ev) \<and> writable ev")
    case False
    then show ?thesis
      using onStdoutData_quiet [OF False, of s] by (auto simp: emitted_def detected_def)
  next
    case True
    show ?thesis
    proof (cases "hasYesNoQuestion (stripAnsiCodes (chunk ev))")
      case yn: True
      then show ?thesis
        using True onStdoutData_yesNo [of ev s] by (simp add: emitted_def askYesNo_kinds)
    next
      case no: False
      then show ?thesis
        using True onStdoutData_text [of ev s]
        by (simp add: emitted_def detected_def askText_kinds)
    qed
  qed
  then show
    "list_ex isQuickPick (emitted s (onStdoutData ev s)) =
       (hasYesNoQuestion (stripAnsiCodes (chunk ev)) \<and> writable ev)"
    "list_ex isInputBox (emitted s (onStdoutData ev s)) =
       (\<not> hasYesNoQuestion (stripAnsiCodes (chunk ev)) \<and>
        hasTextInputQuestion (stripAnsiCodes (chunk ev)) \<and> writable ev)"
    "list_ex isAnswer (emitted s (onStdoutData ev s)) = (detected (chunk ev) \<and> writable ev)"
    by simp_all
qed

lemma pending_after:
  "pendingOutput (onStdoutData ev s) =
     (if detected (chunk ev) \<and> writable ev then [] else pendingOutput s @ chunk ev)"
proof (cases "detected (chunk ev) \<and> writable ev")
  case False
  then show ?thesis using onStdoutData_quiet [OF False, of s] by auto
next
  case True
  then show ?thesis by (simp add: onStdoutData_def Let_def detected_def)
qed

section \<open>Matching a marker in any letter-casing\<close>

lemma lit_ciEq_match:
  "map canonicalize m = map canonicalize p \<Longrightarrow> lit ciEq p k (m @ post) = k post"
  by (induction p arbitrary: m) (auto simp: one_def ciEq_def)

lemma test_at: "m x \<noteq> None \<Longrightarrow> test m x"
  by (cases x) (auto simp: test_def)

lemma test_append: "m x \<noteq> None \<Longrightarrow> test m (pre @ x)"
proof (induction pre)
  case Nil
  then show ?case by (simp add: test_at)
next
  case (Cons c pre)
  then show ?case by (auto simp: test_def split: option.splits)
qed

lemma test_marker:
  assumes "map canonicalize m = map canonicalize p"
  shows "test (lit ciEq p accept) (pre @ m @ post)"
  by (rule test_append) (simp add: lit_ciEq_match [OF assms] accept_def)

section \<open>The promise and the checks before the spawn\<close>

lemma result_onStdoutData: "result (onStdoutData ev s) = result s"
  by (simp add: onStdoutData_def Let_def)

lemma result_onStderrData: "result (onStderrData output s) = result s"
  by (simp add: onStderrData_def)

lemma run_append: "run args (es @ es') s = run args es' (run args es s)"
  by (induction es arbitrary: s) auto

lemma result_run_data: "list_all isData es \<Longrightarrow> result (run args es s) = result s"
proof (induction es arbitrary: s)
  case Nil
  then show ?case by simp
next
  case (Cons e es)
  then show ?case
    by (cases e) (simp_all add: result_onStdoutData result_onStderrData)
qed

lemma no_spawn_checkingPaths: "\<not> list_ex isSpawn (checkingPaths h)"
  by (simp add: checkingPaths_def)

lemma messages_distinct:
  "noWorkspaceMessage \<noteq> pythonNotFoundMessage p"
  "noWorkspaceMessage \<noteq> gitcdNotFoundMessage g"
  "pythonNotFoundMessage p \<noteq> gitcdNotFoundMessage g"
  by (simp_all add: noWorkspaceMessage_def pythonNotFoundMessage_def gitcdNotFoundMessage_def js_def)

lemma runGitCdCommand_spawns:
  assumes "workspaceFolder h = Some cwd" and "existsSync h (pythonPath h)"
    and "existsSync h (gitcdPath h)"
  shows "last (effects (runGitCdCommand h args)) = Spawn (pythonPath h) (gitcdPath h # args) cwd"
    and "result (runGitCdCommand h args) = Pending"
  using assms by (simp_all add: runGitCdCommand_def)


section \<open>Claims about prompt detection and the pending buffer\<close>

text \<open>
  Claim C1, as the code has it. The detection patterns are tested on \<open>cleanOutput\<close>, the
  colour-stripped text of the chunk that has just arrived. Whether the handler asks a yes/no
  question or a text question is therefore decided by that chunk and by
  \<^verbatim>\<open>child.stdin.writable\<close> alone: the pending buffer has no part in it, so two sessions
  \<open>s\<close> and \<open>s'\<close> with whatever buffers ask the same kind of question, or none, when the
  same chunk arrives.
\<close>

theorem detection_reads_latest_chunk_only:
  "list_ex isQuickPick (emitted s (onStdoutData ev s)) =
     (hasYesNoQuestion (stripAnsiCodes (chunk ev)) \<and> writable ev) \<and>
   list_ex isInputBox (emitted s (onStdoutData ev s)) =
     (\<not> hasYesNoQuestion (stripAnsiCodes (chunk ev)) \<and>
      hasTextInputQuestion (stripAnsiCodes (chunk ev)) \<and> writable ev) \<and>
   list_ex isQuickPick (emitted s (onStdoutData ev s)) =
     list_ex isQuickPick (emitted s' (onStdoutData ev s')) \<and>
   list_ex isInputBox (emitted s (onStdoutData ev s)) =
     list_ex isInputBox (emitted s' (onStdoutData ev s'))"
proof -
  have kinds:
    "list_ex isQuickPick (emitted t (onStdoutData ev t)) =
       (hasYesNoQuestion (stripAnsiCodes (chunk ev)) \<and> writable ev) \<and>
     list_ex isInputBox (emitted t (onStdoutData ev t)) =
       (\<not> hasYesNoQuestion (stripAnsiCodes (chunk ev)) \<and>
        hasTextInputQuestion (stripAnsiCodes (chunk ev)) \<and> writable ev)" for t
  proof (cases "detected (chunk ev) \<and> writable ev")
    case False
    then have "emitted t (onStdoutData ev t) = [Append (cleanedLines (chunk ev))]"
      using onStdoutData_quiet [OF False, of t] by (simp add: emitted_def)
    then show ?thesis using False by (auto simp: detected_def)
  next
    case True
    show ?thesis
    proof (cases "hasYesNoQuestion (stripAnsiCodes (chunk ev))")
      case yesNo: True
      then have "emitted t (onStdoutData ev t) =
          Append (cleanedLines (chunk ev)) #
          askYesNo (extractQuestion (stripAnsiCodes (pendingOutput t @ chunk ev))
                      (stripAnsiCodes (chunk ev))) (picked ev)"
        using True onStdoutData_yesNo [of ev t] by (simp add: emitted_def)
      then show ?thesis using True yesNo by (simp add: askYesNo_kinds)
    next
      case other: False
      then have free: "hasTextInputQuestion (stripAnsiCodes (chunk ev))"
        using True by (simp add: detected_def)
      then have "emitted t (onStdoutData ev t) =
          Append (cleanedLines (chunk ev)) #
          askText (extractQuestion (stripAnsiCodes (pendingOutput t @ chunk ev))
                     (stripAnsiCodes (chunk ev)))
                  (extractDefault (stripAnsiCodes (pendingOutput t @ chunk ev))) (entered ev)"
        using True other onStdoutData_text [of ev t] by (simp add: emitted_def)
      then show ?thesis using True other free by (simp add: askText_kinds)
    qed
  qed
  from kinds [of s] kinds [of s'] show ?thesis by simp
qed

text \<open>
  The theorem where the buffer already holds \<^verbatim>\<open>Delete branch [y\<close> and the chunk
  \<^verbatim>\<open>/n]: \<close> arrives: the chunk matches no pattern, and no question is asked, just as in
  a session whose buffer is empty.
\<close>

theorem detection_reads_latest_chunk_only_witness:
  "\<not> hasYesNoQuestion (stripAnsiCodes (js ''/n]: '')) \<and>
   \<not> hasTextInputQuestion (stripAnsiCodes (js ''/n]: '')) \<and>
   \<not> list_ex isQuickPick
       (emitted \<lparr>stdout = js ''Delete branch [y'', stderr = [],
                  pendingOutput = js ''Delete branch [y'',
                  effects = [Append (js ''Delete branch [y'')], result = Pending\<rparr>
          (onStdoutData \<lparr>chunk = js ''/n]: '', writable = True, picked = Some Yes, entered = None\<rparr>
             \<lparr>stdout = js ''Delete branch [y'', stderr = [],
               pendingOutput = js ''Delete branch [y'',
               effects = [Append (js ''Delete branch [y'')], result = Pending\<rparr>)) \<and>
   \<not> list_ex isInputBox
       (emitted \<lparr>stdout = js ''Delete branch [y'', stderr = [],
                  pendingOutput = js ''Delete branch [y'',
                  effects = [Append (js ''Delete branch [y'')], result = Pending\<rparr>
          (onStdoutData \<lparr>chunk = js ''/n]: '', writable = True, picked = Some Yes, entered = None\<rparr>
             \<lparr>stdout = js ''Delete branch [y'', stderr = [],
               pendingOutput = js ''Delete branch [y'',
               effects = [Append (js ''Delete branch [y'')], result = Pending\<rparr>)) \<and>
   \<not> list_ex isQuickPick
       (emitted \<lparr>stdout = [], stderr = [], pendingOutput = [], effects = [], result = Pending\<rparr>
          (onStdoutData \<lparr>chunk = js ''/n]: '', writable = True, picked = Some Yes, entered = None\<rparr>
             \<lparr>stdout = [], stderr = [], pendingOutput = [], effects = [], result = Pending\<rparr>))"
proof -
  have yn: "\<not> hasYesNoQuestion (stripAnsiCodes (js ''/n]: ''))"
    by code_simp
  have ti: "\<not> hasTextInputQuestion (stripAnsiCodes (js ''/n]: ''))"
    by code_simp
  show ?thesis
    using yn ti
      detection_reads_latest_chunk_only
        [where s = "\<lparr>stdout = js ''Delete branch [y'', stderr = [],
              pendingOutput = js ''Delete branch [y'',
              effects = [Append (js ''Delete branch [y'')], result = Pending\<rparr>"
           and ev = "\<lparr>chunk = js ''/n]: '', writable = True, picked = Some Yes, entered = None\<rparr>"
           and s' = "\<lparr>stdout = [], stderr = [], pendingOutput = [], effects = [],
              result = Pending\<rparr>"]
    by auto
qed

text \<open>
  Claim C1 as stated fails when a marker is split over two chunks. After the chunks
  \<^verbatim>\<open>Delete branch [y\<close> and \<^verbatim>\<open>/n]: \<close> the pending buffer is \<^verbatim>\<open>Delete branch [y/n]: \<close>,
  which the yes/no pattern matches, yet no question has been asked: the session has only
  appended the two chunks to the output channel. The same text arriving as one chunk is
  answered with a quick pick.
\<close>

theorem detection_misses_split_marker:
  "hasYesNoQuestion (stripAnsiCodes (js ''Delete branch [y'' @ js ''/n]: '')) \<and>
   onStdoutData \<lparr>chunk = js ''/n]: '', writable = True, picked = Some Yes, entered = None\<rparr>
     (onStdoutData
        \<lparr>chunk = js ''Delete branch [y'', writable = True, picked = Some Yes, entered = None\<rparr>
        \<lparr>stdout = [], stderr = [], pendingOutput = [], effects = [], result = Pending\<rparr>) =
     \<lparr>stdout = js ''Delete branch [y/n]: '', stderr = [],
      pendingOutput = js ''Delete branch [y/n]: '',
      effects = [Append (js ''Delete branch [y''), Append (js ''/n]:'')], result = Pending\<rparr> \<and>
   effects (onStdoutData
        \<lparr>chunk = js ''Delete branch [y/n]: '', writable = True, picked = Some Yes, entered = None\<rparr>
        \<lparr>stdout = [], stderr = [], pendingOutput = [], effects = [], result = Pending\<rparr>) =
     [Append (js ''Delete branch [y/n]:''), ShowQuickPick (js ''Delete branch''),
      StdinWrite (js ''yes\<newline>''), AppendLine (Literal (js ''[User selected: Yes]''))]"
  by code_simp

text \<open>
  Claim C2. For every session state, hence at every step of every sequence of chunks, the
  stdout handler leaves the pending buffer empty if the chunk was detected as a prompt while
  stdin was writable, and otherwise leaves it as the previous buffer followed by the chunk;
  and the first case is exactly the one in which the handler has written an answer to stdin
  or killed the child. In particular a chunk in which no pattern matches is appended and
  nothing is cleared.
\<close>

theorem pending_cleared_iff_answered:
  "pendingOutput (onStdoutData ev s) =
     (if detected (chunk ev) \<and> writable ev then [] else pendingOutput s @ chunk ev) \<and>
   list_ex isAnswer (emitted s (onStdoutData ev s)) = (detected (chunk ev) \<and> writable ev) \<and>
   (\<not> detected (chunk ev) \<longrightarrow> pendingOutput (onStdoutData ev s) = pendingOutput s @ chunk ev)"
proof -
  have buffer: "pendingOutput (onStdoutData ev s) =
      (if detected (chunk ev) \<and> writable ev then [] else pendingOutput s @ chunk ev)"
    by (rule pending_after)
  have answered:
    "list_ex isAnswer (emitted s (onStdoutData ev s)) = (detected (chunk ev) \<and> writable ev)"
    by (rule asked_iff(3))
  from buffer have "\<not> detected (chunk ev) \<longrightarrow>
      pendingOutput (onStdoutData ev s) = pendingOutput s @ chunk ev"
    by simp
  with buffer answered show ?thesis by blast
qed

text \<open>
  The theorem on the buffer \<^verbatim>\<open>Fetching\<close> followed by the chunk \<^verbatim>\<open> origin\<close>, in which no
  pattern matches.
\<close>

theorem pending_cleared_iff_answered_witness:
  "\<not> detected (js '' origin'') \<and>
   pendingOutput
     (onStdoutData \<lparr>chunk = js '' origin'', writable = True, picked = None, entered = None\<rparr>
        \<lparr>stdout = js ''Fetching'', stderr = [], pendingOutput = js ''Fetching'',
          effects = [Append (js ''Fetching'')], result = Pending\<rparr>) =
     js ''Fetching'' @ js '' origin''"
proof -
  have quiet: "\<not> detected (js '' origin'')"
    by code_simp
  show ?thesis
    using quiet
      pending_cleared_iff_answered
        [of "\<lparr>chunk = js '' origin'', writable = True, picked = None, entered = None\<rparr>"
            "\<lparr>stdout = js ''Fetching'', stderr = [], pendingOutput = js ''Fetching'',
              effects = [Append (js ''Fetching'')], result = Pending\<rparr>"]
    by simp
qed

section \<open>Claims about the answers\<close>

text \<open>
  Claim C3. When a chunk is detected as a yes/no prompt, stdin is writable and the quick pick
  is dismissed (it resolves to \<^verbatim>\<open>undefined\<close>, the cancellation), the handler appends the
  chunk to the output channel, shows the quick pick, writes the literal \<^verbatim>\<open>no\n\<close> to the
  child's stdin and then kills the child, in this order and with nothing else.
\<close>

theorem dismissed_yesNo_writes_no_then_kills:
  assumes "hasYesNoQuestion (stripAnsiCodes (chunk ev))" and "writable ev" and "picked ev = None"
  shows "emitted s (onStdoutData ev s) =
    [Append (cleanedLines (chunk ev)),
     ShowQuickPick (cleanYesNoQuestion
       (extractQuestion (stripAnsiCodes (pendingOutput s @ chunk ev)) (stripAnsiCodes (chunk ev)))),
     StdinWrite (js ''no\<newline>''),
     Kill]"
proof -
  have "emitted s (onStdoutData ev s) =
      Append (cleanedLines (chunk ev)) #
      askYesNo (extractQuestion (stripAnsiCodes (pendingOutput s @ chunk ev))
                  (stripAnsiCodes (chunk ev))) (picked ev)"
    using assms(1,2) onStdoutData_yesNo [of ev s] by (simp add: emitted_def)
  then show ?thesis using assms(3) by (simp add: askYesNo_def)
qed

text \<open>The theorem at the first chunk \<^verbatim>\<open>Delete branch foo? [y/n]: \<close> of a session.\<close>

theorem dismissed_yesNo_writes_no_then_kills_witness:
  "hasYesNoQuestion (stripAnsiCodes (js ''Delete branch foo? [y/n]: '')) \<and>
   emitted \<lparr>stdout = [], stderr = [], pendingOutput = [], effects = [], result = Pending\<rparr>
     (onStdoutData
        \<lparr>chunk = js ''Delete branch foo? [y/n]: '', writable = True, picked = None, entered = None\<rparr>
        \<lparr>stdout = [], stderr = [], pendingOutput = [], effects = [], result = Pending\<rparr>) =
     [Append (js ''Delete branch foo? [y/n]:''), ShowQuickPick (js ''Delete branch foo?''),
      StdinWrite (js ''no\<newline>''), Kill]"
proof -
  have yn: "hasYesNoQuestion (stripAnsiCodes (js ''Delete branch foo? [y/n]: ''))"
    by code_simp
  have shown: "cleanedLines (js ''Delete branch foo? [y/n]: '') = js ''Delete branch foo? [y/n]:''"
    by code_simp
  have q: "cleanYesNoQuestion
      (extractQuestion (stripAnsiCodes ([] @ js ''Delete branch foo? [y/n]: ''))
         (stripAnsiCodes (js ''Delete branch foo? [y/n]: ''))) = js ''Delete branch foo?''"
    by code_simp
  show ?thesis
    using yn shown q
      dismissed_yesNo_writes_no_then_kills
        [of "\<lparr>chunk = js ''Delete branch foo? [y/n]: '', writable = True, picked = None,
              entered = None\<rparr>"
            "\<lparr>stdout = [], stderr = [], pendingOutput = [], effects = [], result = Pending\<rparr>"]
    by simp
qed

text \<open>
  Claim C4. When a chunk is detected as a text prompt (no yes/no marker) and stdin is
  writable, the handler appends the chunk and shows the input box; then an empty submission
  writes exactly \<^verbatim>\<open>\n\<close> to stdin, logs the entry and does not kill the child, while a
  dismissal (\<^verbatim>\<open>undefined\<close>) writes nothing and kills the child.
\<close>

theorem empty_submission_is_not_dismissal:
  assumes "\<not> hasYesNoQuestion (stripAnsiCodes (chunk ev))"
    and "hasTextInputQuestion (stripAnsiCodes (chunk ev))" and "writable ev"
  shows "\<exists>question dflt hint.
           (entered ev = Some [] \<longrightarrow>
              emitted s (onStdoutData ev s) =
                [Append (cleanedLines (chunk ev)),
                 ShowInputBox question dflt hint,
                 StdinWrite (js ''\<newline>''),
                 AppendLine (Literal (js ''[User entered: '' @ js ''(empty - using default)'' @
                                      js '']''))]) \<and>
           (entered ev = None \<longrightarrow>
              emitted s (onStdoutData ev s) =
                [Append (cleanedLines (chunk ev)),
                 ShowInputBox question dflt hint,
                 Kill])"
proof -
  have "emitted s (onStdoutData ev s) =
      Append (cleanedLines (chunk ev)) #
      askText (extractQuestion (stripAnsiCodes (pendingOutput s @ chunk ev))
                 (stripAnsiCodes (chunk ev)))
              (extractDefault (stripAnsiCodes (pendingOutput s @ chunk ev))) (entered ev)"
    using assms onStdoutData_text [of ev s] by (simp add: emitted_def)
  then show ?thesis by (auto simp: askText_def)
qed

text \<open>
  The theorem at the first chunk \<^verbatim>\<open>Enter branch name?\<close> of a session, once submitted
  empty and once dismissed.
\<close>

theorem empty_submission_is_not_dismissal_witness:
  "\<not> hasYesNoQuestion (stripAnsiCodes (js ''Enter branch name?'')) \<and>
   hasTextInputQuestion (stripAnsiCodes (js ''Enter branch name?'')) \<and>
   (\<exists>question dflt hint.
      emitted \<lparr>stdout = [], stderr = [], pendingOutput = [], effects = [], result = Pending\<rparr>
        (onStdoutData
           \<lparr>chunk = js ''Enter branch name?'', writable = True, picked = None, entered = Some []\<rparr>
           \<lparr>stdout = [], stderr = [], pendingOutput = [], effects = [], result = Pending\<rparr>) =
        [Append (cleanedLines (js ''Enter branch name?'')),
         ShowInputBox question dflt hint,
         StdinWrite (js ''\<newline>''),
         AppendLine (Literal (js ''[User entered: '' @ js ''(empty - using default)'' @ js '']''))])"
proof -
  have yn: "\<not> hasYesNoQuestion (stripAnsiCodes (js ''Enter branch name?''))"
    by code_simp
  have ti: "hasTextInputQuestion (stripAnsiCodes (js ''Enter branch name?''))"
    by code_simp
  show ?thesis
    using yn ti
      empty_submission_is_not_dismissal
        [of "\<lparr>chunk = js ''Enter branch name?'', writable = True, picked = None,
              entered = Some []\<rparr>"
            "\<lparr>stdout = [], stderr = [], pendingOutput = [], effects = [], result = Pending\<rparr>"]
    by simp
qed

section \<open>Claims about classification and the question text\<close>

text \<open>
  Claim C5. If the colour-stripped chunk contains \<^verbatim>\<open>[y/n]\<close> or \<^verbatim>\<open>(yes/no)\<close> in any
  letter-casing (it is \<open>pre @ m @ post\<close> where \<open>m\<close> equals the marker up to the case of its
  letters), then the yes/no detection holds, and with stdin writable the handler shows the
  quick pick and never the input box. Nothing is assumed about the text patterns: they may
  match as well.
\<close>

theorem yesNo_marker_wins:
  assumes "stripAnsiCodes (chunk ev) = pre @ m @ post"
    and "map canonicalize m = map canonicalize (js ''[y/n]'') \<or>
         map canonicalize m = map canonicalize (js ''(yes/no)'')"
  shows "hasYesNoQuestion (stripAnsiCodes (chunk ev)) \<and>
         (writable ev \<longrightarrow>
            list_ex isQuickPick (emitted s (onStdoutData ev s)) \<and>
            \<not> list_ex isInputBox (emitted s (onStdoutData ev s)))"
proof -
  have yn: "hasYesNoQuestion (stripAnsiCodes (chunk ev))"
    using assms test_marker [of m _ pre post]
    by (auto simp: hasYesNoQuestion_def yesNoPatterns_def)
  then show ?thesis
    by (simp add: asked_iff)
qed

text \<open>
  The theorem at the chunk \<^verbatim>\<open>Proceed? [Y/N]\<close>, in which the text pattern
  \<^verbatim>\<open>/proceed\?/i\<close> matches too.
\<close>

theorem yesNo_marker_wins_witness:
  "stripAnsiCodes (js ''Proceed? [Y/N]'') = js ''Proceed? '' @ js ''[Y/N]'' @ [] \<and>
   map canonicalize (js ''[Y/N]'') = map canonicalize (js ''[y/n]'') \<and>
   hasTextInputQuestion (stripAnsiCodes (js ''Proceed? [Y/N]'')) \<and>
   list_ex isQuickPick
     (emitted \<lparr>stdout = [], stderr = [], pendingOutput = [], effects = [], result = Pending\<rparr>
        (onStdoutData
           \<lparr>chunk = js ''Proceed? [Y/N]'', writable = True, picked = Some No, entered = None\<rparr>
           \<lparr>stdout = [], stderr = [], pendingOutput = [], effects = [], result = Pending\<rparr>)) \<and>
   \<not> list_ex isInputBox
     (emitted \<lparr>stdout = [], stderr = [], pendingOutput = [], effects = [], result = Pending\<rparr>
        (onStdoutData
           \<lparr>chunk = js ''Proceed? [Y/N]'', writable = True, picked = Some No, entered = None\<rparr>
           \<lparr>stdout = [], stderr = [], pendingOutput = [], effects = [], result = Pending\<rparr>))"
proof -
  have split: "stripAnsiCodes (js ''Proceed? [Y/N]'') = js ''Proceed? '' @ js ''[Y/N]'' @ []"
    by code_simp
  have same: "map canonicalize (js ''[Y/N]'') = map canonicalize (js ''[y/n]'')"
    by code_simp
  have ti: "hasTextInputQuestion (stripAnsiCodes (js ''Proceed? [Y/N]''))"
    by code_simp
  have "stripAnsiCodes
          (chunk \<lparr>chunk = js ''Proceed? [Y/N]'', writable = True, picked = Some No, entered = None\<rparr>) =
        js ''Proceed? '' @ js ''[Y/N]'' @ []"
    using split by simp
  from yesNo_marker_wins [OF this disjI1 [OF same]] show ?thesis
    using split same ti by simp
qed

text \<open>
  Claim C6, as the code has it. For the first chunk \<^verbatim>\<open>Continue? [y/n]: \<close> of a session,
  with stdin writable, the yes/no detection holds, the chunk is appended to the output
  channel with its trailing blank trimmed, and the quick pick is shown with the question
  \<^verbatim>\<open>Continue?\<close>: the replacement removes the marker, the colon and the white space
  around them, and keeps the question mark.
\<close>

theorem continue_question_text:
  assumes "chunk ev = js ''Continue? [y/n]: ''" and "pendingOutput s = []" and "writable ev"
  shows "hasYesNoQuestion (stripAnsiCodes (chunk ev)) \<and>
         take 2 (emitted s (onStdoutData ev s)) =
           [Append (js ''Continue? [y/n]:''), ShowQuickPick (js ''Continue?'')]"
proof -
  have yn: "hasYesNoQuestion (stripAnsiCodes (js ''Continue? [y/n]: ''))"
    by code_simp
  have shown: "cleanedLines (js ''Continue? [y/n]: '') = js ''Continue? [y/n]:''"
    by code_simp
  have q: "cleanYesNoQuestion (extractQuestion (stripAnsiCodes (js ''Continue? [y/n]: ''))
             (stripAnsiCodes (js ''Continue? [y/n]: ''))) = js ''Continue?''"
    by code_simp
  show ?thesis
    using assms yn shown q onStdoutData_yesNo [of ev s]
    by (simp add: emitted_def askYesNo_def)
qed

text \<open>The theorem at a session that has just been spawned, the user choosing \<^verbatim>\<open>Yes\<close>.\<close>

theorem continue_question_text_witness:
  "take 2
     (emitted \<lparr>stdout = [], stderr = [], pendingOutput = [], effects = [], result = Pending\<rparr>
        (onStdoutData
           \<lparr>chunk = js ''Continue? [y/n]: '', writable = True, picked = Some Yes, entered = None\<rparr>
           \<lparr>stdout = [], stderr = [], pendingOutput = [], effects = [], result = Pending\<rparr>)) =
     [Append (js ''Continue? [y/n]:''), ShowQuickPick (js ''Continue?'')]"
  using continue_question_text
    [of "\<lparr>chunk = js ''Continue? [y/n]: '', writable = True, picked = Some Yes, entered = None\<rparr>"
        "\<lparr>stdout = [], stderr = [], pendingOutput = [], effects = [], result = Pending\<rparr>"]
  by simp

text \<open>
  Claim C6 as stated fails: for \<^verbatim>\<open>Continue? [y/n]: \<close> the question shown is
  \<^verbatim>\<open>Continue?\<close>, not \<^verbatim>\<open>Continue\<close>.
\<close>

theorem continue_question_keeps_mark:
  "hasYesNoQuestion (stripAnsiCodes (js ''Continue? [y/n]: '')) \<and>
   effects (onStdoutData
        \<lparr>chunk = js ''Continue? [y/n]: '', writable = True, picked = Some Yes, entered = None\<rparr>
        \<lparr>stdout = [], stderr = [], pendingOutput = [], effects = [], result = Pending\<rparr>) =
     [Append (js ''Continue? [y/n]:''), ShowQuickPick (js ''Continue?''),
      StdinWrite (js ''yes\<newline>''), AppendLine (Literal (js ''[User selected: Yes]''))] \<and>
   cleanYesNoQuestion (extractQuestion (stripAnsiCodes (js ''Continue? [y/n]: ''))
      (stripAnsiCodes (js ''Continue? [y/n]: ''))) \<noteq> js ''Continue''"
  by code_simp

section \<open>Claim about the sanitizer\<close>

text \<open>
  Claim C7, as the code has it. Sanitizing (\<open>cleanedLines\<close>: strip the colour sequences,
  then trim the end of every line) is one pass, and removing a colour sequence can put the
  pieces of another one next to each other. So sanitizing twice gives the same text as
  sanitizing once exactly when the sanitized text holds no colour sequence any more: the
  pattern \<^verbatim>\<open>ESC [ params m\<close> matches nowhere in it.
\<close>

theorem sanitize_idempotent_iff_clean:
  "cleanedLines (cleanedLines t) = cleanedLines t \<longleftrightarrow> \<not> test ansiCode (cleanedLines t)"
proof
  assume idem: "cleanedLines (cleanedLines t) = cleanedLines t"
  have le: "length (cleanedLines t) \<le> length (stripAnsiCodes (cleanedLines t))"
    using trimLines_length [of "stripAnsiCodes (cleanedLines t)"] idem
    by (simp add: cleanedLines_def)
  show "\<not> test ansiCode (cleanedLines t)"
  proof
    assume "test ansiCode (cleanedLines t)"
    then have "length (stripAnsiCodes (cleanedLines t)) < length (cleanedLines t)"
      by (rule stripAnsiCodes_shorter)
    then show False using le by simp
  qed
next
  assume "\<not> test ansiCode (cleanedLines t)"
  then have "stripAnsiCodes (cleanedLines t) = cleanedLines t" by (rule stripAnsiCodes_fixed)
  then have "cleanedLines (cleanedLines t) = trimLines (cleanedLines t)"
    by (simp add: cleanedLines_def)
  then show "cleanedLines (cleanedLines t) = cleanedLines t"
    by (simp add: cleanedLines_def trimLines_idem)
qed

text \<open>
  The theorem at the chunk \<^verbatim>\<open>ESC[1mok  \n\<close>: its sanitized text \<^verbatim>\<open>ok\n\<close> holds no
  colour sequence, and sanitizing it again changes nothing.
\<close>

theorem sanitize_idempotent_iff_clean_witness:
  "\<not> test ansiCode (cleanedLines (0x1B # js ''[1mok  \<newline>'')) \<and>
   cleanedLines (0x1B # js ''[1mok  \<newline>'') = js ''ok\<newline>'' \<and>
   cleanedLines (cleanedLines (0x1B # js ''[1mok  \<newline>'')) = cleanedLines (0x1B # js ''[1mok  \<newline>'')"
proof -
  have clean: "\<not> test ansiCode (cleanedLines (0x1B # js ''[1mok  \<newline>''))"
    by code_simp
  have val: "cleanedLines (0x1B # js ''[1mok  \<newline>'') = js ''ok\<newline>''"
    by code_simp
  show ?thesis
    using clean val sanitize_idempotent_iff_clean [of "0x1B # js ''[1mok  \<newline>''"] by blast
qed

text \<open>
  Claim C7 as stated fails at the text \<^verbatim>\<open>ESC [ ESC [ m m\<close>, which is itself the
  sanitized form of \<^verbatim>\<open>ESC [ ESC [ ESC [ m m m\<close>: the first pass removes the inner
  \<^verbatim>\<open>ESC [ m\<close> and leaves \<^verbatim>\<open>ESC [ m\<close>, which the second pass removes.
\<close>

theorem sanitize_not_idempotent:
  "cleanedLines [0x1B, 0x5B, 0x1B, 0x5B, 0x1B, 0x5B, 0x6D, 0x6D, 0x6D] =
     [0x1B, 0x5B, 0x1B, 0x5B, 0x6D, 0x6D] \<and>
   cleanedLines [0x1B, 0x5B, 0x1B, 0x5B, 0x6D, 0x6D] = [0x1B, 0x5B, 0x6D] \<and>
   cleanedLines (cleanedLines [0x1B, 0x5B, 0x1B, 0x5B, 0x6D, 0x6D]) = [] \<and>
   cleanedLines (cleanedLines [0x1B, 0x5B, 0x1B, 0x5B, 0x6D, 0x6D])
     \<noteq> cleanedLines [0x1B, 0x5B, 0x1B, 0x5B, 0x6D, 0x6D]"
  by code_simp

section \<open>Claims about the outcome of an invocation\<close>

text \<open>
  Claim C8. Take a session whose promise is pending and let any stdout and stderr events
  happen, whatever they contain and however prompts are answered. If the child then closes,
  the promise is fulfilled and the success message is shown when the code is 0; for every
  other code the promise is rejected with that code and the failure message carrying it is
  shown. If instead the child emits an error, the promise is rejected with the error's
  message and that message is shown; a close event that follows the error, with whatever
  code, leaves the promise rejected with the message.
\<close>

theorem outcome_from_exit_code:
  assumes "result s = Pending" and "list_all isData es"
  shows "result (run args (es @ [Close code]) s) =
           (if code = Some 0 then Fulfilled else Rejected (ExitError code)) \<and>
         last (effects (run args (es @ [Close code]) s)) =
           (if code = Some 0 then ShowInformationMessage (CompletedSuccessfully (arg0 args))
            else ShowErrorMessage (FailedWithCode (arg0 args) code)) \<and>
         result (run args (es @ [Error errorMessage]) s) = Rejected (SpawnError errorMessage) \<and>
         last (effects (run args (es @ [Error errorMessage]) s)) =
           ShowErrorMessage (Literal (js ''Git-CD error: '' @ errorMessage)) \<and>
         result (run args (es @ [Error errorMessage, Close code]) s) =
           Rejected (SpawnError errorMessage)"
proof -
  have pending: "result (run args es s) = Pending"
    using assms result_run_data [of es args s] by simp
  have closed: "run args (es @ [Close code]) s = onClose args code (run args es s)"
    and failed: "run args (es @ [Error errorMessage]) s = onError errorMessage (run args es s)"
    and both: "run args (es @ [Error errorMessage, Close code]) s =
                 onClose args code (onError errorMessage (run args es s))"
    by (simp_all add: run_append)
  show ?thesis
    unfolding closed failed both using pending by (simp add: onClose_def onError_def)
qed

text \<open>
  The theorem for \<^verbatim>\<open>status\<close>: the child prints \<^verbatim>\<open>Up to date.\n\<close> and closes with code 3.
\<close>

theorem outcome_from_exit_code_witness:
  "result \<lparr>stdout = [], stderr = [], pendingOutput = [], effects = [], result = Pending\<rparr> = Pending \<and>
   list_all isData
     [StdoutData \<lparr>chunk = js ''Up to date.\<newline>'', writable = True, picked = None, entered = None\<rparr>] \<and>
   result (run [js ''status'']
     ([StdoutData \<lparr>chunk = js ''Up to date.\<newline>'', writable = True, picked = None, entered = None\<rparr>]
      @ [Close (Some 3)])
     \<lparr>stdout = [], stderr = [], pendingOutput = [], effects = [], result = Pending\<rparr>) =
     Rejected (ExitError (Some 3))"
proof -
  have pending:
    "result \<lparr>stdout = [], stderr = [], pendingOutput = [], effects = [], result = Pending\<rparr> = Pending"
    by simp
  have data: "list_all isData
     [StdoutData \<lparr>chunk = js ''Up to date.\<newline>'', writable = True, picked = None, entered = None\<rparr>]"
    by simp
  from outcome_from_exit_code [OF pending data, of "[js ''status'']" "Some 3" "[]"]
  show ?thesis using pending data by simp
qed

text \<open>
  Claim C9, as the code has it. The three checks come before the spawn, in the order
  workspace folder, Python path, Git-CD path. Whenever at least one of them fails,
  \<^verbatim>\<open>runGitCdCommand\<close> spawns nothing, its last effect is the error message of the first
  check that fails (so the Git-CD message when a workspace folder is open and the Python
  path exists), the three messages differ from one another, and the function returns: its
  promise is fulfilled, not rejected. All of this holds in particular when the Git-CD path
  does not exist; no failure is returned to the caller.
\<close>

theorem failed_precondition_reports_and_returns:
  assumes "workspaceFolder h = None \<or> \<not> existsSync h (pythonPath h) \<or>
           \<not> existsSync h (gitcdPath h)"
  shows "\<not> list_ex isSpawn (effects (runGitCdCommand h args)) \<and>
         result (runGitCdCommand h args) = Fulfilled \<and>
         last (effects (runGitCdCommand h args)) =
           ShowErrorMessage
             (if workspaceFolder h = None then noWorkspaceMessage
              else if \<not> existsSync h (pythonPath h) then pythonNotFoundMessage (pythonPath h)
              else gitcdNotFoundMessage (gitcdPath h)) \<and>
         (workspaceFolder h \<noteq> None \<and> existsSync h (pythonPath h) \<longrightarrow>
            last (effects (runGitCdCommand h args)) =
              ShowErrorMessage (gitcdNotFoundMessage (gitcdPath h))) \<and>
         noWorkspaceMessage \<noteq> pythonNotFoundMessage (pythonPath h) \<and>
         noWorkspaceMessage \<noteq> gitcdNotFoundMessage (gitcdPath h) \<and>
         pythonNotFoundMessage (pythonPath h) \<noteq> gitcdNotFoundMessage (gitcdPath h)"
proof (cases "workspaceFolder h")
  case None
  then have "runGitCdCommand h args = returned [ShowErrorMessage noWorkspaceMessage]"
    by (simp add: runGitCdCommand_def)
  then show ?thesis using None by (simp add: returned_def messages_distinct)
next
  case (Some cwd)
  show ?thesis
  proof (cases "existsSync h (pythonPath h)")
    case False
    then have "runGitCdCommand h args =
        returned (checkingPaths h @ [ShowErrorMessage (pythonNotFoundMessage (pythonPath h))])"
      using Some by (simp add: runGitCdCommand_def)
    then show ?thesis
      using Some False by (simp add: returned_def no_spawn_checkingPaths messages_distinct)
  next
    case True
    then have missing: "\<not> existsSync h (gitcdPath h)" using assms Some by simp
    then have "runGitCdCommand h args =
        returned (checkingPaths h @ [ShowErrorMessage (gitcdNotFoundMessage (gitcdPath h))])"
      using Some True by (simp add: runGitCdCommand_def)
    then show ?thesis
      using Some True by (simp add: returned_def no_spawn_checkingPaths messages_distinct)
  qed
qed

text \<open>
  The theorem for a host with an open workspace folder and a Python at
  \<^verbatim>\<open>/usr/bin/python3\<close>, but nothing at the Git-CD path \<^verbatim>\<open>/home/u/.local/bin/git-cd\<close>.
\<close>

theorem failed_precondition_reports_and_returns_witness:
  "\<not> existsSync
       \<lparr>workspaceFolder = Some (js ''/repo''), showOutput = True, extensionPath = js ''/ext'',
         pythonPath = js ''/usr/bin/python3'', gitcdPath = js ''/home/u/.local/bin/git-cd'',
         existsSync = (\<lambda>p. p = js ''/usr/bin/python3''), sshAuthSock = None\<rparr>
       (js ''/home/u/.local/bin/git-cd'') \<and>
   \<not> list_ex isSpawn (effects (runGitCdCommand
       \<lparr>workspaceFolder = Some (js ''/repo''), showOutput = True, extensionPath = js ''/ext'',
         pythonPath = js ''/usr/bin/python3'', gitcdPath = js ''/home/u/.local/bin/git-cd'',
         existsSync = (\<lambda>p. p = js ''/usr/bin/python3''), sshAuthSock = None\<rparr>
       [js ''refresh''])) \<and>
   result (runGitCdCommand
       \<lparr>workspaceFolder = Some (js ''/repo''), showOutput = True, extensionPath = js ''/ext'',
         pythonPath = js ''/usr/bin/python3'', gitcdPath = js ''/home/u/.local/bin/git-cd'',
         existsSync = (\<lambda>p. p = js ''/usr/bin/python3''), sshAuthSock = None\<rparr>
       [js ''refresh'']) = Fulfilled \<and>
   last (effects (runGitCdCommand
       \<lparr>workspaceFolder = Some (js ''/repo''), showOutput = True, extensionPath = js ''/ext'',
         pythonPath = js ''/usr/bin/python3'', gitcdPath = js ''/home/u/.local/bin/git-cd'',
         existsSync = (\<lambda>p. p = js ''/usr/bin/python3''), sshAuthSock = None\<rparr>
       [js ''refresh''])) =
     ShowErrorMessage (gitcdNotFoundMessage (js ''/home/u/.local/bin/git-cd''))"
proof -
  have python: "existsSync
       \<lparr>workspaceFolder = Some (js ''/repo''), showOutput = True, extensionPath = js ''/ext'',
         pythonPath = js ''/usr/bin/python3'', gitcdPath = js ''/home/u/.local/bin/git-cd'',
         existsSync = (\<lambda>p. p = js ''/usr/bin/python3''), sshAuthSock = None\<rparr>
       (js ''/usr/bin/python3'')"
    by simp
  have missing: "\<not> existsSync
       \<lparr>workspaceFolder = Some (js ''/repo''), showOutput = True, extensionPath = js ''/ext'',
         pythonPath = js ''/usr/bin/python3'', gitcdPath = js ''/home/u/.local/bin/git-cd'',
         existsSync = (\<lambda>p. p = js ''/usr/bin/python3''), sshAuthSock = None\<rparr>
       (js ''/home/u/.local/bin/git-cd'')"
    by code_simp
  show ?thesis
    using python missing
      failed_precondition_reports_and_returns
        [where h = "\<lparr>workspaceFolder = Some (js ''/repo''), showOutput = True,
              extensionPath = js ''/ext'', pythonPath = js ''/usr/bin/python3'',
              gitcdPath = js ''/home/u/.local/bin/git-cd'',
              existsSync = (\<lambda>p. p = js ''/usr/bin/python3''), sshAuthSock = None\<rparr>"
           and args = "[js ''refresh'']"]
    by simp
qed

text \<open>
  Claim C9 as stated fails in two places. With an existing Python and a missing Git-CD
  path, nothing is spawned and the error message is shown, but the invocation does not
  return a failure: its promise is fulfilled, as it is after an exit with code 0. And with
  both paths missing, only the Python message is shown: the missing Git-CD path, although
  it fails its check too, gets no report of its own.
\<close>

theorem missing_gitcd_fulfils:
  "\<not> existsSync \<lparr>workspaceFolder = Some (js ''/w''), showOutput = False, extensionPath = js ''/e'',
       pythonPath = js ''/usr/bin/python3'', gitcdPath = js ''/opt/git-cd'',
       existsSync = (\<lambda>p. p = js ''/usr/bin/python3''), sshAuthSock = None\<rparr> (js ''/opt/git-cd'') \<and>
   runGitCdCommand
     \<lparr>workspaceFolder = Some (js ''/w''), showOutput = False, extensionPath = js ''/e'',
       pythonPath = js ''/usr/bin/python3'', gitcdPath = js ''/opt/git-cd'',
       existsSync = (\<lambda>p. p = js ''/usr/bin/python3''), sshAuthSock = None\<rparr> [js ''status''] =
   \<lparr>stdout = [], stderr = [], pendingOutput = [],
     effects = [AppendLine (Literal (js ''Checking paths...'')),
                AppendLine (Literal (js ''Extension path: /e'')),
                AppendLine (Literal (js ''Python: /usr/bin/python3 (exists: true)'')),
                AppendLine (Literal (js ''Git-CD: /opt/git-cd (exists: false)'')),
                ShowErrorMessage (Literal (js
                  ''Git-CD not found at: /opt/git-cd. Please check settings or reinstall extension.''))],
     result = Fulfilled\<rparr> \<and>
   runGitCdCommand
     \<lparr>workspaceFolder = Some (js ''/w''), showOutput = False, extensionPath = js ''/e'',
       pythonPath = js ''/usr/bin/python3'', gitcdPath = js ''/opt/git-cd'',
       existsSync = (\<lambda>p. False), sshAuthSock = None\<rparr> [js ''status''] =
   \<lparr>stdout = [], stderr = [], pendingOutput = [],
     effects = [AppendLine (Literal (js ''Checking paths...'')),
                AppendLine (Literal (js ''Extension path: /e'')),
                AppendLine (Literal (js ''Python: /usr/bin/python3 (exists: false)'')),
                AppendLine (Literal (js ''Git-CD: /opt/git-cd (exists: false)'')),
                ShowErrorMessage (Literal (js
                  ''Python not found at: /usr/bin/python3. Please check settings.''))],
     result = Fulfilled\<rparr>"
  by code_simp

section \<open>Claim about a child whose stdin is not writable\<close>

text \<open>
  Claim C10. The handler shows a quick pick or an input box only if
  \<^verbatim>\<open>child.stdin.writable\<close> holds. When it does not hold, then for every chunk, also one
  in which a prompt pattern matches, the handler appends the chunk to the accumulated
  stdout and to the pending buffer and its sanitized text to the output channel, and does
  nothing else: no question, no write to stdin, no kill, and the buffer is not cleared.
\<close>

theorem not_writable_only_buffers:
  "(list_ex isQuickPick (emitted s (onStdoutData ev s)) \<or>
    list_ex isInputBox (emitted s (onStdoutData ev s)) \<longrightarrow> writable ev) \<and>
   (\<not> writable ev \<longrightarrow>
      onStdoutData ev s =
        s\<lparr>stdout := stdout s @ chunk ev,
          effects := effects s @ [Append (cleanedLines (chunk ev))],
          pendingOutput := pendingOutput s @ chunk ev\<rparr>)"
proof -
  have asks: "list_ex isQuickPick (emitted s (onStdoutData ev s)) \<or>
      list_ex isInputBox (emitted s (onStdoutData ev s)) \<longrightarrow> writable ev"
    by (simp add: asked_iff)
  have quiet: "\<not> writable ev \<longrightarrow>
      onStdoutData ev s =
        s\<lparr>stdout := stdout s @ chunk ev,
          effects := effects s @ [Append (cleanedLines (chunk ev))],
          pendingOutput := pendingOutput s @ chunk ev\<rparr>"
    using onStdoutData_quiet [of ev s] by simp
  from asks quiet show ?thesis by (rule conjI)
qed

text \<open>
  The theorem at the chunk \<^verbatim>\<open>Continue? [y/n]: \<close>, a yes/no prompt, arriving while stdin
  is not writable.
\<close>

theorem not_writable_only_buffers_witness:
  "hasYesNoQuestion (stripAnsiCodes (js ''Continue? [y/n]: '')) \<and>
   \<not> writable \<lparr>chunk = js ''Continue? [y/n]: '', writable = False, picked = Some Yes, entered = None\<rparr> \<and>
   onStdoutData
     \<lparr>chunk = js ''Continue? [y/n]: '', writable = False, picked = Some Yes, entered = None\<rparr>
     \<lparr>stdout = [], stderr = [], pendingOutput = [], effects = [], result = Pending\<rparr> =
   \<lparr>stdout = js ''Continue? [y/n]: '', stderr = [], pendingOutput = js ''Continue? [y/n]: '',
     effects = [Append (cleanedLines (js ''Continue? [y/n]: ''))], result = Pending\<rparr>"
proof -
  have yn: "hasYesNoQuestion (stripAnsiCodes (js ''Continue? [y/n]: ''))"
    by code_simp
  show ?thesis
    using yn
      not_writable_only_buffers
        [of "\<lparr>stdout = [], stderr = [], pendingOutput = [], effects = [], result = Pending\<rparr>"
            "\<lparr>chunk = js ''Continue? [y/n]: '', writable = False, picked = Some Yes,
              entered = None\<rparr>"]
    by simp
qed

end
